theory Spec2Isabelle
  imports Complex_Main "HOL-Library.Sublist" "HOL-Library.AList" "HOL-Library.List_Lexorder" "HOL-Library.Char_ord"
begin

section \<open>Response fingerprints (package fingerprint)\<close>

text \<open>
  The struct \<open>Fingerprint\<close>. Go's \<open>int\<close> fields are modelled as unbounded integers: a
  content length is the length of a byte slice, and the only arithmetic on the fields is
  one subtraction of two content lengths, which cannot wrap for such values. A
  \<open>*Fingerprint\<close> is a \<open>Fingerprint option\<close>, \<open>None\<close> being the nil pointer.
\<close>

record Fingerprint =
  StatusCode :: int
  ContentLength :: int
  WordCount :: int
  LineCount :: int
  BodyHash :: string
  ContainsMatchString :: bool

text \<open>
  \<open>Equals\<close> computes its tolerance in \<open>float64\<close>. The model computes it in the reals;
  the two agree whenever the content lengths are far below \<open>2^48\<close>, since the rounding
  error of the product with 0.05 is then much smaller than the distance 0.05 between two
  possible exact values.
\<close>

fun Equals :: "Fingerprint option \<Rightarrow> Fingerprint option \<Rightarrow> bool" where
  "Equals None other = False"
| "Equals (Some f) None = False"
| "Equals (Some f) (Some other) =
     (if ContainsMatchString f \<noteq> ContainsMatchString other then False
      else if StatusCode f \<noteq> StatusCode other then False
      else if WordCount f = WordCount other then True
      else (let tolerance = real_of_int (ContentLength f) * 0.05;
                diff = real_of_int (ContentLength f - ContentLength other);
                diff = (if diff < 0 then - diff else diff)
            in diff \<le> tolerance))"

fun IsSimilar :: "Fingerprint option \<Rightarrow> Fingerprint option \<Rightarrow> bool" where
  "IsSimilar None other = False"
| "IsSimilar (Some f) None = False"
| "IsSimilar (Some f) (Some other) = (StatusCode f = StatusCode other)"

text \<open>\<open>strings.Join\<close> with a separator.\<close>

fun Join :: "string list \<Rightarrow> string \<Rightarrow> string" where
  "Join [] sep = []"
| "Join [x] sep = x"
| "Join (x # y # ys) sep = x @ sep @ Join (y # ys) sep"

fun Diff :: "Fingerprint option \<Rightarrow> Fingerprint option \<Rightarrow> string" where
  "Diff None other = ''nil fingerprint''"
| "Diff (Some f) None = ''nil fingerprint''"
| "Diff (Some f) (Some other) =
     (let diffs = (if StatusCode f \<noteq> StatusCode other then [''status code''] else [])
                @ (if WordCount f \<noteq> WordCount other then [''word count''] else [])
                @ (if ContentLength f \<noteq> ContentLength other then [''content length''] else [])
                @ (if BodyHash f \<noteq> BodyHash other then [''body content''] else [])
      in if length diffs = 0 then ''identical'' else Join diffs '', '')"

datatype MatchType = MatchUnknown | MatchTrue | MatchFalse | MatchError

section \<open>Calibration results (package calibrator)\<close>

record CalibrationResult =
  TrueFingerprint :: "Fingerprint option"
  FalseFingerprint :: "Fingerprint option"
  ErrorFingerprint :: "Fingerprint option"
  CanDifferentiate :: bool
  ErrorMatchesTrue :: bool

text \<open>
  The three classifiers read a field of their receiver, so the receiver is a
  \<open>CalibrationResult\<close>; the fingerprint stored in it and the one passed in may be nil.
\<close>

definition IsTrue :: "CalibrationResult \<Rightarrow> Fingerprint option \<Rightarrow> bool" where
  "IsTrue r fp = Equals (TrueFingerprint r) fp"

definition IsFalse :: "CalibrationResult \<Rightarrow> Fingerprint option \<Rightarrow> bool" where
  "IsFalse r fp = Equals (FalseFingerprint r) fp"

definition IsError :: "CalibrationResult \<Rightarrow> Fingerprint option \<Rightarrow> bool" where
  "IsError r fp = Equals (ErrorFingerprint r) fp"

definition GetMatchType :: "CalibrationResult \<Rightarrow> Fingerprint option \<Rightarrow> MatchType" where
  "GetMatchType r fp =
     (if IsTrue r fp then MatchTrue
      else if IsFalse r fp then MatchFalse
      else if IsError r fp then MatchError
      else MatchUnknown)"

section \<open>String helpers (Go package strings)\<close>

text \<open>
  Go strings are byte sequences; a \<open>string\<close> here is the list of its bytes. \<open>Index\<close> and
  \<open>LastIndex\<close> return the byte offset of the first and of the last occurrence of a
  substring, or \<open>-1\<close>.
\<close>

fun Index :: "string \<Rightarrow> string \<Rightarrow> int" where
  "Index [] sub = (if sub = [] then 0 else -1)"
| "Index (x # xs) sub =
     (if prefix sub (x # xs) then 0
      else (let r = Index xs sub in if r = -1 then -1 else r + 1))"

fun LastIndex :: "string \<Rightarrow> string \<Rightarrow> int" where
  "LastIndex [] sub = (if sub = [] then 0 else -1)"
| "LastIndex (x # xs) sub =
     (let r = LastIndex xs sub in
      if r \<noteq> -1 then r + 1 else if prefix sub (x # xs) then 0 else -1)"

definition Contains :: "string \<Rightarrow> string \<Rightarrow> bool" where
  "Contains s substr = (Index s substr \<ge> 0)"

definition HasPrefix :: "string \<Rightarrow> string \<Rightarrow> bool" where
  "HasPrefix s pre = prefix pre s"

text \<open>
  \<open>strings.ToLower\<close> on ASCII text: the letters \<open>A\<close> to \<open>Z\<close> move to \<open>a\<close> to \<open>z\<close>.
  Bytes from 128 on (Go would decode them as UTF-8 and lower-case the runes) are left as
  they are; host names are ASCII.
\<close>

definition toLowerByte :: "char \<Rightarrow> char" where
  "toLowerByte c =
     (if (65::nat) \<le> of_char c \<and> of_char c \<le> (90::nat) then char_of (of_char c + (32::nat)) else c)"

definition ToLower :: "string \<Rightarrow> string" where
  "ToLower s = map toLowerByte s"

section \<open>The host cache: host keys (package storage)\<close>

definition normalizeHost :: "string \<Rightarrow> string" where
  "normalizeHost host =
     (let idx = LastIndex host '':'';
          host = (if idx \<noteq> -1
                  then (if \<not> Contains (drop (nat idx) host) '']'' then take (nat idx) host
                        else host)
                  else host)
      in ToLower host)"

text \<open>
  The number of colons of a host string that no closing bracket follows: the colons after
  the last \<open>]\<close>, or all of them when there is no bracket.
\<close>

definition colonsOutsideBrackets :: "string \<Rightarrow> nat" where
  "colonsOutsideBrackets h =
     length (filter (\<lambda>c. c = CHR '':'') (rev (takeWhile (\<lambda>c. c \<noteq> CHR '']'') (rev h))))"

section \<open>The host cache file (package storage)\<close>

text \<open>
  The cache is one JSON file. The model starts from the parsed document: a \<open>json\<close> value,
  or nothing when the bytes are not JSON at all. No field of the cache is numeric, so of
  a number only its kind matters. An object keeps its members in document order.
\<close>

datatype json =
    JNull
  | JBool bool
  | JNumber int
  | JString string
  | JArray "json list"
  | JObject "(string \<times> json) list"

datatype cache_file = NoFile | Unreadable | Content "json option"

datatype cache_error = ReadError | SyntaxError | UnmarshalTypeError

text \<open>
  A Go map is an association list read through \<open>map_of\<close> and written through
  \<open>AList.update\<close>; a nil and an empty slice or map are the same list. The values of
  \<open>Tables\<close> are pointers, \<open>None\<close> being nil.
\<close>

record TableCache =
  Columns :: "string list"
  Rows :: "(string \<times> string) list list"

record HostCache =
  Host :: string
  Database :: string
  Version :: string
  Tables :: "(string \<times> TableCache option) list"
  KnownStrings :: "string list"

record Cache =
  Hosts :: "HostCache list"

subsection \<open>Reading: \<open>json.Unmarshal\<close> into the cache structs\<close>

text \<open>
  What \<open>encoding/json\<close> does for these types: an object member whose key matches no
  field tag is skipped; keys match tags without regard to (ASCII) case; \<open>null\<close> leaves a
  string as it is and empties a slice, a map or a pointer; a value of the wrong kind is
  an \<open>UnmarshalTypeError\<close>; a member met twice is decoded twice, a map taking the
  members of both. The first error is the result; the caller drops the value then.
\<close>

fun collect :: "(cache_error + 'a) list \<Rightarrow> cache_error + 'a list" where
  "collect [] = Inr []"
| "collect (Inl e # xs) = Inl e"
| "collect (Inr x # xs) = (case collect xs of Inl e \<Rightarrow> Inl e | Inr ys \<Rightarrow> Inr (x # ys))"

fun decodeStringElem :: "json \<Rightarrow> cache_error + string" where
  "decodeStringElem (JString s) = Inr s"
| "decodeStringElem JNull = Inr ''''"
| "decodeStringElem _ = Inl UnmarshalTypeError"

fun decodeStrings :: "json \<Rightarrow> string list \<Rightarrow> cache_error + string list" where
  "decodeStrings JNull old = Inr []"
| "decodeStrings (JArray xs) old = collect (map decodeStringElem xs)"
| "decodeStrings _ old = Inl UnmarshalTypeError"

fun decodeRowMembers ::
  "(string \<times> json) list \<Rightarrow> (string \<times> string) list \<Rightarrow> cache_error + (string \<times> string) list" where
  "decodeRowMembers [] row = Inr row"
| "decodeRowMembers ((k, v) # kvs) row =
     (case decodeStringElem v of
        Inl e \<Rightarrow> Inl e
      | Inr s \<Rightarrow> decodeRowMembers kvs (AList.update k s row))"

fun decodeRow :: "json \<Rightarrow> cache_error + (string \<times> string) list" where
  "decodeRow JNull = Inr []"
| "decodeRow (JObject kvs) = decodeRowMembers kvs []"
| "decodeRow _ = Inl UnmarshalTypeError"

fun decodeRows :: "json \<Rightarrow> cache_error + (string \<times> string) list list" where
  "decodeRows JNull = Inr []"
| "decodeRows (JArray xs) = collect (map decodeRow xs)"
| "decodeRows _ = Inl UnmarshalTypeError"

definition decodeTableField :: "string \<Rightarrow> json \<Rightarrow> TableCache \<Rightarrow> cache_error + TableCache" where
  "decodeTableField k v t =
     (let key = ToLower k in
      if key = ''columns'' then
        (case decodeStrings v (Columns t) of
           Inl e \<Rightarrow> Inl e | Inr cs \<Rightarrow> Inr (t\<lparr>Columns := cs\<rparr>))
      else if key = ''rows'' then
        (case decodeRows v of
           Inl e \<Rightarrow> Inl e | Inr rs \<Rightarrow> Inr (t\<lparr>Rows := rs\<rparr>))
      else Inr t)"

fun decodeTableFields :: "(string \<times> json) list \<Rightarrow> TableCache \<Rightarrow> cache_error + TableCache" where
  "decodeTableFields [] t = Inr t"
| "decodeTableFields ((k, v) # kvs) t =
     (case decodeTableField k v t of
        Inl e \<Rightarrow> Inl e
      | Inr t' \<Rightarrow> decodeTableFields kvs t')"

fun decodeTablePtr :: "json \<Rightarrow> cache_error + TableCache option" where
  "decodeTablePtr JNull = Inr None"
| "decodeTablePtr (JObject kvs) =
     (case decodeTableFields kvs \<lparr>Columns = [], Rows = []\<rparr> of
        Inl e \<Rightarrow> Inl e | Inr t \<Rightarrow> Inr (Some t))"
| "decodeTablePtr _ = Inl UnmarshalTypeError"

fun decodeTableMembers ::
  "(string \<times> json) list \<Rightarrow> (string \<times> TableCache option) list
   \<Rightarrow> cache_error + (string \<times> TableCache option) list" where
  "decodeTableMembers [] m = Inr m"
| "decodeTableMembers ((k, v) # kvs) m =
     (case decodeTablePtr v of
        Inl e \<Rightarrow> Inl e
      | Inr t \<Rightarrow> decodeTableMembers kvs (AList.update k t m))"

fun decodeTables ::
  "json \<Rightarrow> (string \<times> TableCache option) list \<Rightarrow> cache_error + (string \<times> TableCache option) list" where
  "decodeTables JNull m = Inr []"
| "decodeTables (JObject kvs) m = decodeTableMembers kvs m"
| "decodeTables _ m = Inl UnmarshalTypeError"

fun decodeStringField :: "json \<Rightarrow> string \<Rightarrow> cache_error + string" where
  "decodeStringField JNull old = Inr old"
| "decodeStringField (JString s) old = Inr s"
| "decodeStringField _ old = Inl UnmarshalTypeError"

definition decodeHostField :: "string \<Rightarrow> json \<Rightarrow> HostCache \<Rightarrow> cache_error + HostCache" where
  "decodeHostField k v h =
     (let key = ToLower k in
      if key = ''host'' then
        (case decodeStringField v (Host h) of
           Inl e \<Rightarrow> Inl e | Inr s \<Rightarrow> Inr (h\<lparr>Host := s\<rparr>))
      else if key = ''database'' then
        (case decodeStringField v (Database h) of
           Inl e \<Rightarrow> Inl e | Inr s \<Rightarrow> Inr (h\<lparr>Database := s\<rparr>))
      else if key = ''version'' then
        (case decodeStringField v (Version h) of
           Inl e \<Rightarrow> Inl e | Inr s \<Rightarrow> Inr (h\<lparr>Version := s\<rparr>))
      else if key = ''tables'' then
        (case decodeTables v (Tables h) of
           Inl e \<Rightarrow> Inl e | Inr m \<Rightarrow> Inr (h\<lparr>Tables := m\<rparr>))
      else if key = ''known_strings'' then
        (case decodeStrings v (KnownStrings h) of
           Inl e \<Rightarrow> Inl e | Inr ks \<Rightarrow> Inr (h\<lparr>KnownStrings := ks\<rparr>))
      else Inr h)"

fun decodeHostFields :: "(string \<times> json) list \<Rightarrow> HostCache \<Rightarrow> cache_error + HostCache" where
  "decodeHostFields [] h = Inr h"
| "decodeHostFields ((k, v) # kvs) h =
     (case decodeHostField k v h of
        Inl e \<Rightarrow> Inl e
      | Inr h' \<Rightarrow> decodeHostFields kvs h')"

definition emptyHost :: HostCache where
  "emptyHost = \<lparr>Host = '''', Database = '''', Version = '''', Tables = [], KnownStrings = []\<rparr>"

fun decodeHost :: "json \<Rightarrow> cache_error + HostCache" where
  "decodeHost JNull = Inr emptyHost"
| "decodeHost (JObject kvs) = decodeHostFields kvs emptyHost"
| "decodeHost _ = Inl UnmarshalTypeError"

fun decodeHosts :: "json \<Rightarrow> cache_error + HostCache list" where
  "decodeHosts JNull = Inr []"
| "decodeHosts (JArray xs) = collect (map decodeHost xs)"
| "decodeHosts _ = Inl UnmarshalTypeError"

fun decodeCacheFields :: "(string \<times> json) list \<Rightarrow> Cache \<Rightarrow> cache_error + Cache" where
  "decodeCacheFields [] c = Inr c"
| "decodeCacheFields ((k, v) # kvs) c =
     (if ToLower k = ''hosts'' then
        (case decodeHosts v of
           Inl e \<Rightarrow> Inl e
         | Inr hs \<Rightarrow> decodeCacheFields kvs (c\<lparr>Hosts := hs\<rparr>))
      else decodeCacheFields kvs c)"

fun unmarshalCache :: "json \<Rightarrow> cache_error + Cache" where
  "unmarshalCache JNull = Inr \<lparr>Hosts = []\<rparr>"
| "unmarshalCache (JObject kvs) = decodeCacheFields kvs \<lparr>Hosts = []\<rparr>"
| "unmarshalCache _ = Inl UnmarshalTypeError"

subsection \<open>Reading the legacy shape\<close>

text \<open>
  The anonymous legacy struct: a host has \<open>finder\<close>, a map from pattern to a struct with
  one field \<open>tables\<close>, a map from table name to any JSON value.
\<close>

record LegacyFinderEntry =
  LTables :: "(string \<times> json) list"

record LegacyHost =
  LHost :: string
  LDatabase :: string
  LVersion :: string
  LFinder :: "(string \<times> LegacyFinderEntry) list"
  LKnownStrings :: "string list"

fun decodeAnyMembers ::
  "(string \<times> json) list \<Rightarrow> (string \<times> json) list \<Rightarrow> (string \<times> json) list" where
  "decodeAnyMembers [] m = m"
| "decodeAnyMembers ((k, v) # kvs) m = decodeAnyMembers kvs (AList.update k v m)"

fun decodeAnyMap :: "json \<Rightarrow> (string \<times> json) list \<Rightarrow> cache_error + (string \<times> json) list" where
  "decodeAnyMap JNull m = Inr []"
| "decodeAnyMap (JObject kvs) m = Inr (decodeAnyMembers kvs m)"
| "decodeAnyMap _ m = Inl UnmarshalTypeError"

fun decodeFinderEntryFields ::
  "(string \<times> json) list \<Rightarrow> LegacyFinderEntry \<Rightarrow> cache_error + LegacyFinderEntry" where
  "decodeFinderEntryFields [] fe = Inr fe"
| "decodeFinderEntryFields ((k, v) # kvs) fe =
     (if ToLower k = ''tables'' then
        (case decodeAnyMap v (LTables fe) of
           Inl e \<Rightarrow> Inl e
         | Inr m \<Rightarrow> decodeFinderEntryFields kvs (fe\<lparr>LTables := m\<rparr>))
      else decodeFinderEntryFields kvs fe)"

fun decodeFinderEntry :: "json \<Rightarrow> cache_error + LegacyFinderEntry" where
  "decodeFinderEntry JNull = Inr \<lparr>LTables = []\<rparr>"
| "decodeFinderEntry (JObject kvs) = decodeFinderEntryFields kvs \<lparr>LTables = []\<rparr>"
| "decodeFinderEntry _ = Inl UnmarshalTypeError"

fun decodeFinderMembers ::
  "(string \<times> json) list \<Rightarrow> (string \<times> LegacyFinderEntry) list
   \<Rightarrow> cache_error + (string \<times> LegacyFinderEntry) list" where
  "decodeFinderMembers [] m = Inr m"
| "decodeFinderMembers ((k, v) # kvs) m =
     (case decodeFinderEntry v of
        Inl e \<Rightarrow> Inl e
      | Inr fe \<Rightarrow> decodeFinderMembers kvs (AList.update k fe m))"

fun decodeFinder ::
  "json \<Rightarrow> (string \<times> LegacyFinderEntry) list \<Rightarrow> cache_error + (string \<times> LegacyFinderEntry) list" where
  "decodeFinder JNull m = Inr []"
| "decodeFinder (JObject kvs) m = decodeFinderMembers kvs m"
| "decodeFinder _ m = Inl UnmarshalTypeError"

definition decodeLegacyHostField ::
  "string \<Rightarrow> json \<Rightarrow> LegacyHost \<Rightarrow> cache_error + LegacyHost" where
  "decodeLegacyHostField k v h =
     (let key = ToLower k in
      if key = ''host'' then
        (case decodeStringField v (LHost h) of
           Inl e \<Rightarrow> Inl e | Inr s \<Rightarrow> Inr (h\<lparr>LHost := s\<rparr>))
      else if key = ''database'' then
        (case decodeStringField v (LDatabase h) of
           Inl e \<Rightarrow> Inl e | Inr s \<Rightarrow> Inr (h\<lparr>LDatabase := s\<rparr>))
      else if key = ''version'' then
        (case decodeStringField v (LVersion h) of
           Inl e \<Rightarrow> Inl e | Inr s \<Rightarrow> Inr (h\<lparr>LVersion := s\<rparr>))
      else if key = ''finder'' then
        (case decodeFinder v (LFinder h) of
           Inl e \<Rightarrow> Inl e | Inr m \<Rightarrow> Inr (h\<lparr>LFinder := m\<rparr>))
      else if key = ''known_strings'' then
        (case decodeStrings v (LKnownStrings h) of
           Inl e \<Rightarrow> Inl e | Inr ks \<Rightarrow> Inr (h\<lparr>LKnownStrings := ks\<rparr>))
      else Inr h)"

fun decodeLegacyHostFields ::
  "(string \<times> json) list \<Rightarrow> LegacyHost \<Rightarrow> cache_error + LegacyHost" where
  "decodeLegacyHostFields [] h = Inr h"
| "decodeLegacyHostFields ((k, v) # kvs) h =
     (case decodeLegacyHostField k v h of
        Inl e \<Rightarrow> Inl e
      | Inr h' \<Rightarrow> decodeLegacyHostFields kvs h')"

definition emptyLegacyHost :: LegacyHost where
  "emptyLegacyHost =
     \<lparr>LHost = '''', LDatabase = '''', LVersion = '''', LFinder = [], LKnownStrings = []\<rparr>"

fun decodeLegacyHost :: "json \<Rightarrow> cache_error + LegacyHost" where
  "decodeLegacyHost JNull = Inr emptyLegacyHost"
| "decodeLegacyHost (JObject kvs) = decodeLegacyHostFields kvs emptyLegacyHost"
| "decodeLegacyHost _ = Inl UnmarshalTypeError"

fun decodeLegacyHosts :: "json \<Rightarrow> cache_error + LegacyHost list" where
  "decodeLegacyHosts JNull = Inr []"
| "decodeLegacyHosts (JArray xs) = collect (map decodeLegacyHost xs)"
| "decodeLegacyHosts _ = Inl UnmarshalTypeError"

fun decodeLegacyCacheFields ::
  "(string \<times> json) list \<Rightarrow> LegacyHost list \<Rightarrow> cache_error + LegacyHost list" where
  "decodeLegacyCacheFields [] hs = Inr hs"
| "decodeLegacyCacheFields ((k, v) # kvs) hs =
     (if ToLower k = ''hosts'' then
        (case decodeLegacyHosts v of
           Inl e \<Rightarrow> Inl e
         | Inr hs' \<Rightarrow> decodeLegacyCacheFields kvs hs')
      else decodeLegacyCacheFields kvs hs)"

fun unmarshalLegacyCache :: "json \<Rightarrow> cache_error + LegacyHost list" where
  "unmarshalLegacyCache JNull = Inr []"
| "unmarshalLegacyCache (JObject kvs) = decodeLegacyCacheFields kvs []"
| "unmarshalLegacyCache _ = Inl UnmarshalTypeError"

subsection \<open>Migrating the legacy shape\<close>

text \<open>
  The loops of \<open>loadUnifiedCache\<close> over a legacy host. Go visits the members of a map in
  no fixed order; the model visits them in list order.
\<close>

fun addColumns :: "json list \<Rightarrow> string list \<Rightarrow> string list" where
  "addColumns [] columns = columns"
| "addColumns (JString colStr # cols) columns =
     (if colStr \<in> set columns then addColumns cols columns
      else addColumns cols (columns @ [colStr]))"
| "addColumns (col # cols) columns = addColumns cols columns"

definition tableOrEmpty :: "(string \<times> TableCache option) list \<Rightarrow> string \<Rightarrow> TableCache" where
  "tableOrEmpty tables tableName =
     (case map_of tables tableName of
        Some (Some t) \<Rightarrow> t
      | _ \<Rightarrow> \<lparr>Columns = [], Rows = []\<rparr>)"

definition migrateTable ::
  "string \<Rightarrow> json \<Rightarrow> (string \<times> TableCache option) list \<Rightarrow> (string \<times> TableCache option) list" where
  "migrateTable tableName tableData tables =
     (let t = tableOrEmpty tables tableName;
          t' = (case tableData of
                  JArray v \<Rightarrow> t\<lparr>Columns := addColumns v (Columns t)\<rparr>
                | JObject v \<Rightarrow>
                    (case map_of v ''columns'' of
                       Some (JArray cols) \<Rightarrow> t\<lparr>Columns := addColumns cols (Columns t)\<rparr>
                     | _ \<Rightarrow> t)
                | _ \<Rightarrow> t)
      in AList.update tableName (Some t') tables)"

fun migrateTables ::
  "(string \<times> json) list \<Rightarrow> (string \<times> TableCache option) list \<Rightarrow> (string \<times> TableCache option) list" where
  "migrateTables [] tables = tables"
| "migrateTables ((tableName, tableData) # rest) tables =
     migrateTables rest (migrateTable tableName tableData tables)"

fun migrateFinder ::
  "(string \<times> LegacyFinderEntry) list \<Rightarrow> (string \<times> TableCache option) list
   \<Rightarrow> (string \<times> TableCache option) list" where
  "migrateFinder [] tables = tables"
| "migrateFinder ((pat, finderEntry) # rest) tables =
     migrateFinder rest (migrateTables (LTables finderEntry) tables)"

definition migrateHost :: "LegacyHost \<Rightarrow> HostCache" where
  "migrateHost legacyHost =
     \<lparr>Host = LHost legacyHost, Database = LDatabase legacyHost, Version = LVersion legacyHost,
      Tables = migrateFinder (LFinder legacyHost) [],
      KnownStrings = LKnownStrings legacyHost\<rparr>"

definition loadUnifiedCache :: "cache_file \<Rightarrow> cache_error + Cache" where
  "loadUnifiedCache fl =
     (case fl of
        NoFile \<Rightarrow> Inr \<lparr>Hosts = []\<rparr>
      | Unreadable \<Rightarrow> Inl ReadError
      | Content None \<Rightarrow> Inr \<lparr>Hosts = []\<rparr>
      | Content (Some data) \<Rightarrow>
          (case unmarshalCache data of
             Inr cache \<Rightarrow> Inr cache
           | Inl err \<Rightarrow>
               (case unmarshalLegacyCache data of
                  Inl err' \<Rightarrow> Inr \<lparr>Hosts = []\<rparr>
                | Inr legacyHosts \<Rightarrow> Inr \<lparr>Hosts = map migrateHost legacyHosts\<rparr>)))"

subsection \<open>Writing: \<open>json.MarshalIndent\<close> of the cache\<close>

text \<open>
  Fields tagged \<open>omitempty\<close> are left out when empty; the members of a map are written
  in the order of their keys. The write itself is taken to succeed.
\<close>

definition marshalRow :: "(string \<times> string) list \<Rightarrow> json" where
  "marshalRow row = JObject (map (\<lambda>(k, v). (k, JString v)) (sort_key fst row))"

definition marshalTable :: "TableCache \<Rightarrow> json" where
  "marshalTable t =
     JObject ((if Columns t = [] then [] else [(''columns'', JArray (map JString (Columns t)))])
            @ (if Rows t = [] then [] else [(''rows'', JArray (map marshalRow (Rows t)))]))"

definition marshalTablePtr :: "TableCache option \<Rightarrow> json" where
  "marshalTablePtr p = (case p of None \<Rightarrow> JNull | Some t \<Rightarrow> marshalTable t)"

definition marshalHost :: "HostCache \<Rightarrow> json" where
  "marshalHost h =
     JObject ([(''host'', JString (Host h))]
            @ (if Database h = [] then [] else [(''database'', JString (Database h))])
            @ (if Version h = [] then [] else [(''version'', JString (Version h))])
            @ (if Tables h = [] then []
               else [(''tables'',
                      JObject (map (\<lambda>(k, p). (k, marshalTablePtr p)) (sort_key fst (Tables h))))])
            @ (if KnownStrings h = [] then []
               else [(''known_strings'', JArray (map JString (KnownStrings h)))]))"

definition marshalCache :: "Cache \<Rightarrow> json" where
  "marshalCache cache = JObject [(''hosts'', JArray (map marshalHost (Hosts cache)))]"

definition saveUnifiedCache :: "Cache \<Rightarrow> cache_file" where
  "saveUnifiedCache cache = Content (Some (marshalCache cache))"

subsection \<open>Known strings\<close>

fun findHost :: "HostCache list \<Rightarrow> string \<Rightarrow> nat option" where
  "findHost [] host = None"
| "findHost (entry # rest) host =
     (if normalizeHost (Host entry) = host then Some 0
      else map_option Suc (findHost rest host))"

text \<open>
  \<open>findOrCreateHost\<close> returns a pointer into \<open>cache.Hosts\<close>; the model returns the cache
  and the index of the entry.
\<close>

definition findOrCreateHost :: "Cache \<Rightarrow> string \<Rightarrow> Cache \<times> nat" where
  "findOrCreateHost cache host =
     (let host = normalizeHost host in
      case findHost (Hosts cache) host of
        Some i \<Rightarrow> (cache, i)
      | None \<Rightarrow>
          (cache\<lparr>Hosts := Hosts cache @
              [\<lparr>Host = host, Database = '''', Version = '''', Tables = [], KnownStrings = []\<rparr>]\<rparr>,
           length (Hosts cache)))"

definition LoadKnownStrings :: "string \<Rightarrow> cache_file \<Rightarrow> string list" where
  "LoadKnownStrings host fl =
     (case loadUnifiedCache fl of
        Inl err \<Rightarrow> []
      | Inr cache \<Rightarrow>
          (case findHost (Hosts cache) (normalizeHost host) of
             Some i \<Rightarrow> KnownStrings (Hosts cache ! i)
           | None \<Rightarrow> []))"

definition SaveKnownString :: "string \<Rightarrow> string \<Rightarrow> cache_file \<Rightarrow> cache_file" where
  "SaveKnownString host str fl =
     (if str = '''' then fl
      else
        (let cache = (case loadUnifiedCache fl of Inl err \<Rightarrow> \<lparr>Hosts = []\<rparr> | Inr c \<Rightarrow> c);
             (cache, i) = findOrCreateHost cache host;
             hostEntry = Hosts cache ! i
         in if str \<in> set (KnownStrings hostEntry) then fl
            else saveUnifiedCache
                   (cache\<lparr>Hosts := (Hosts cache)
                      [i := hostEntry\<lparr>KnownStrings := KnownStrings hostEntry @ [str]\<rparr>]\<rparr>)))"

text \<open>
  An entry is clean when its known strings hold no empty string and no string twice; a
  cache file is clean when every entry read from it is.
\<close>

definition cleanEntry :: "HostCache \<Rightarrow> bool" where
  "cleanEntry h = (distinct (KnownStrings h) \<and> '''' \<notin> set (KnownStrings h))"

definition cleanFile :: "cache_file \<Rightarrow> bool" where
  "cleanFile fl =
     (case loadUnifiedCache fl of Inl err \<Rightarrow> True | Inr cache \<Rightarrow> list_all cleanEntry (Hosts cache))"

section \<open>Payload generators (package payloads)\<close>

text \<open>
  Packages detector and payloads each declare the enumeration \<open>DatabaseType\<close> with the
  same five constants; \<open>ToPayloadType\<close> maps each constant to its namesake.
\<close>

datatype DatabaseType = Unknown | MySQL | MSSQL | PostgreSQL | Oracle

definition ToPayloadType :: "DatabaseType \<Rightarrow> DatabaseType" where
  "ToPayloadType d =
     (case d of MySQL \<Rightarrow> MySQL | MSSQL \<Rightarrow> MSSQL | PostgreSQL \<Rightarrow> PostgreSQL
      | Oracle \<Rightarrow> Oracle | Unknown \<Rightarrow> Unknown)"

fun GetVersionPrefixes :: "DatabaseType \<Rightarrow> string list" where
  "GetVersionPrefixes MySQL =
     [''5.5.'', ''5.6.'', ''5.7.'',
      ''8.0.'', ''8.1.'', ''8.2.'', ''8.3.'', ''8.4.'',
      ''10.'', ''11.'']"
| "GetVersionPrefixes MSSQL =
     [''Microsoft SQL Server 2022'',
      ''Microsoft SQL Server 2019'',
      ''Microsoft SQL Server 2017'',
      ''Microsoft SQL Server 2016'',
      ''Microsoft SQL Server 2014'',
      ''Microsoft SQL Server 2012'',
      ''Microsoft SQL Server 2008'']"
| "GetVersionPrefixes PostgreSQL =
     [''PostgreSQL 17'', ''PostgreSQL 16'', ''PostgreSQL 15'', ''PostgreSQL 14'',
      ''PostgreSQL 13'', ''PostgreSQL 12'', ''PostgreSQL 11'', ''PostgreSQL 10'',
      ''PostgreSQL 9.'']"
| "GetVersionPrefixes Oracle =
     [''Oracle Database 23c'', ''Oracle Database 21c'', ''Oracle Database 19c'',
      ''Oracle Database 18c'', ''Oracle Database 12c'', ''Oracle Database 11g'',
      ''23.'', ''21.'', ''19.'', ''18.'', ''12.'', ''11.'']"
| "GetVersionPrefixes Unknown = []"

text \<open>
  The interface \<open>DatabasePayloads\<close>, reduced to the four methods that build probes. A
  payload is a string in the source; the model leaves its type open, so that every
  statement below holds for the four engines' string payloads and for any other
  generator.
\<close>

record 'p DatabasePayloads =
  GetLengthPayload :: "string \<Rightarrow> int \<Rightarrow> 'p"
  GetComparisonPayload :: "string \<Rightarrow> int \<Rightarrow> 'p"
  GetEqualityPayload :: "string \<Rightarrow> int \<Rightarrow> int \<Rightarrow> 'p"
  GetCharPayload :: "string \<Rightarrow> int \<Rightarrow> int \<Rightarrow> 'p"

section \<open>Sending probes (package requester)\<close>

text \<open>
  Errors are values. \<open>RequestError\<close> is whatever \<open>Requester.Send\<close> returns after its
  retries; the two wrappers are the \<open>fmt.Errorf\<close> calls of \<open>Extractor.extractString\<close>. A
  method call on a nil payload generator is a run-time panic in Go; the model reports it
  as the error \<open>NilPayloadGen\<close>.
\<close>

datatype error =
    RequestError string
  | NilPayloadGen
  | FindLengthFailed error
  | ExtractCharFailed int error

text \<open>
  The only state \<open>Send\<close> changes is the count of requests made; the model keeps the whole
  list of payloads sent so far, whose length is that count. What the target answers is a
  function of the history and of the payload: an error, or a response, of which the
  callers read the fingerprint only (it is never nil in a response).
\<close>

type_synonym 'p server = "'p list \<Rightarrow> 'p \<Rightarrow> error + Fingerprint"

definition Send :: "'p server \<Rightarrow> 'p \<Rightarrow> 'p list \<Rightarrow> (error + Fingerprint) \<times> 'p list" where
  "Send srv payload sent = (srv sent payload, sent @ [payload])"

section \<open>The extractor (package extractor)\<close>

record 'p Extractor =
  requester :: "'p server"
  calibration :: CalibrationResult
  dbType :: DatabaseType
  payloadGen :: "'p DatabasePayloads option"
  maxLen :: int

text \<open>
  The binary search that \<open>findLength\<close>, \<open>findChar\<close>, \<open>GetRowCount\<close> and
  \<open>GetColumnCount\<close> each spell out: \<open>mk\<close> builds the probe for a threshold. On a send
  error the loop stops with the current \<open>low\<close> and the error. All callers start from
  bounds that are not negative, where Go's truncating division is \<open>div\<close>.
\<close>

function searchLoop ::
  "'p server \<Rightarrow> CalibrationResult \<Rightarrow> (int \<Rightarrow> 'p) \<Rightarrow> int \<Rightarrow> int \<Rightarrow> 'p list
   \<Rightarrow> (int \<times> error option) \<times> 'p list" where
  "searchLoop srv cal mk low high sent =
     (if low < high then
        (let mid = (low + high + 1) div 2;
             payload = mk (mid - 1)
         in case Send srv payload sent of
              (Inl err, sent') \<Rightarrow> ((low, Some err), sent')
            | (Inr fp, sent') \<Rightarrow>
                if IsTrue cal (Some fp) then searchLoop srv cal mk mid high sent'
                else searchLoop srv cal mk low (mid - 1) sent')
      else ((low, None), sent))"
  by pat_completeness auto
termination
  by (relation "measure (\<lambda>(srv, cal, mk, low, high, sent). nat (high - low))") auto

declare searchLoop.simps [simp del]

definition Extractor_findLength ::
  "'p Extractor \<Rightarrow> string \<Rightarrow> 'p list \<Rightarrow> (int \<times> error option) \<times> 'p list" where
  "Extractor_findLength e query sent =
     (case payloadGen e of
        None \<Rightarrow> ((0, Some NilPayloadGen), sent)
      | Some pg \<Rightarrow>
          (case Send (requester e) (GetLengthPayload pg query 0) sent of
             (Inl err, sent1) \<Rightarrow> ((0, Some err), sent1)
           | (Inr fp, sent1) \<Rightarrow>
               if \<not> IsTrue (calibration e) (Some fp) then ((0, None), sent1)
               else (case searchLoop (requester e) (calibration e)
                            (GetLengthPayload pg query) 0 1024 sent1 of
                       ((low, Some err), sent2) \<Rightarrow> ((0, Some err), sent2)
                     | ((low, None), sent2) \<Rightarrow> ((low, None), sent2))))"

text \<open>A byte is a \<open>char\<close>; \<open>byte(low)\<close> keeps the low eight bits, as \<open>char_of\<close> does.\<close>

definition Extractor_findChar ::
  "'p Extractor \<Rightarrow> string \<Rightarrow> int \<Rightarrow> 'p list \<Rightarrow> (char \<times> error option) \<times> 'p list" where
  "Extractor_findChar e query pos sent =
     (case payloadGen e of
        None \<Rightarrow> ((char_of (0::int), Some NilPayloadGen), sent)
      | Some pg \<Rightarrow>
          (case searchLoop (requester e) (calibration e) (GetCharPayload pg query pos) 32 126 sent of
             ((low, Some err), sent') \<Rightarrow> ((char_of (0::int), Some err), sent')
           | ((low, None), sent') \<Rightarrow> ((char_of low, None), sent')))"

text \<open>
  \<open>getUniqueCharsAtPosition\<close>: the \<open>seen\<close> map of the source holds exactly the bytes
  already in \<open>result\<close>. Positions count from 1; every caller passes a position of the
  extraction loop, which starts at 1.
\<close>

fun uniqueCharsLoop :: "string list \<Rightarrow> int \<Rightarrow> char list \<Rightarrow> char list" where
  "uniqueCharsLoop [] pos result = result"
| "uniqueCharsLoop (p # ps) pos result =
     (if pos \<le> int (length p) then
        (let c = p ! nat (pos - 1)
         in if c \<notin> set result then uniqueCharsLoop ps pos (result @ [c])
            else uniqueCharsLoop ps pos result)
      else uniqueCharsLoop ps pos result)"

definition getUniqueCharsAtPosition :: "string list \<Rightarrow> int \<Rightarrow> char list" where
  "getUniqueCharsAtPosition prefixList pos = uniqueCharsLoop prefixList pos []"

text \<open>
  The loop of \<open>findCharWithPrefixes\<close> over the unique characters. It leaves the function
  in three ways: a probe answers true, a send fails (binary search takes over), or the
  characters run out (binary search again).
\<close>

fun tryUniqueChars ::
  "'p Extractor \<Rightarrow> 'p DatabasePayloads \<Rightarrow> string \<Rightarrow> int \<Rightarrow> char list \<Rightarrow> 'p list
   \<Rightarrow> (char \<times> error option) \<times> 'p list" where
  "tryUniqueChars e pg query pos [] sent = Extractor_findChar e query pos sent"
| "tryUniqueChars e pg query pos (c # cs) sent =
     (case Send (requester e) (GetEqualityPayload pg query pos (of_char c)) sent of
        (Inl err, sent') \<Rightarrow> Extractor_findChar e query pos sent'
      | (Inr fp, sent') \<Rightarrow>
          if IsTrue (calibration e) (Some fp) then ((c, None), sent')
          else tryUniqueChars e pg query pos cs sent')"

definition candidatePrefixes :: "DatabaseType \<Rightarrow> int \<Rightarrow> string \<Rightarrow> string list" where
  "candidatePrefixes db pos currentResult =
     filter (\<lambda>p. int (length p) \<ge> pos \<and> HasPrefix p currentResult)
       (GetVersionPrefixes (ToPayloadType db))"

definition findCharWithPrefixes ::
  "'p Extractor \<Rightarrow> string \<Rightarrow> int \<Rightarrow> string \<Rightarrow> 'p list \<Rightarrow> (char \<times> error option) \<times> 'p list" where
  "findCharWithPrefixes e query pos currentResult sent =
     (let candidates = candidatePrefixes (dbType e) pos currentResult
      in if length candidates > 0 then
           (case payloadGen e of
              None \<Rightarrow> ((char_of (0::int), Some NilPayloadGen), sent)
            | Some pg \<Rightarrow>
                tryUniqueChars e pg query pos (getUniqueCharsAtPosition candidates pos) sent)
         else Extractor_findChar e query pos sent)"

function extractChars ::
  "'p Extractor \<Rightarrow> string \<Rightarrow> int \<Rightarrow> int \<Rightarrow> string \<Rightarrow> 'p list
   \<Rightarrow> (string \<times> error option) \<times> 'p list" where
  "extractChars e query len i result sent =
     (if i \<le> len then
        (case findCharWithPrefixes e query i result sent of
           ((c, Some err), sent') \<Rightarrow>
             if length result > 0 then ((result, Some err), sent')
             else (('''', Some (ExtractCharFailed i err)), sent')
         | ((c, None), sent') \<Rightarrow> extractChars e query len (i + 1) (result @ [c]) sent')
      else ((result, None), sent))"
  by pat_completeness auto
termination
  by (relation "measure (\<lambda>(e, query, len, i, result, sent). nat (len + 1 - i))") auto

declare extractChars.simps [simp del]

definition Extractor_extractString ::
  "'p Extractor \<Rightarrow> string \<Rightarrow> 'p list \<Rightarrow> (string \<times> error option) \<times> 'p list" where
  "Extractor_extractString e query sent =
     (case Extractor_findLength e query sent of
        ((len, Some err), sent1) \<Rightarrow> (('''', Some (FindLengthFailed err)), sent1)
      | ((len, None), sent1) \<Rightarrow>
          if len = 0 then (('''', None), sent1)
          else (let len = (if maxLen e > 0 \<and> len > maxLen e then maxLen e else len)
                in extractChars e query len 1 [] sent1))"

section \<open>The schema finder (package finder)\<close>

record 'p Finder = "'p Extractor" +
  host :: string

definition getRowCountQuery :: "string \<Rightarrow> string" where
  "getRowCountQuery tableName = ''SELECT COUNT(*) FROM '' @ tableName"

definition thresholds :: "int list" where
  "thresholds = [1000000, 100000, 10000, 1000, 100, 10]"

text \<open>
  The ladder loop of \<open>GetRowCount\<close>: \<open>Some\<close> is a return from inside the loop, \<open>None\<close>
  is falling out of it.
\<close>

fun checkThresholds ::
  "'p server \<Rightarrow> CalibrationResult \<Rightarrow> (int \<Rightarrow> 'p) \<Rightarrow> int list \<Rightarrow> 'p list
   \<Rightarrow> (int \<times> error option) option \<times> 'p list" where
  "checkThresholds srv cal mk [] sent = (None, sent)"
| "checkThresholds srv cal mk (threshold # rest) sent =
     (case Send srv (mk (threshold - 1)) sent of
        (Inl err, sent') \<Rightarrow> (Some (0, Some err), sent')
      | (Inr fp, sent') \<Rightarrow>
          if IsTrue cal (Some fp) then
            (if threshold = 1000000 then (Some (-1, None), sent')
             else (Some (threshold, None), sent'))
          else checkThresholds srv cal mk rest sent')"

definition GetRowCount ::
  "'p Finder \<Rightarrow> string \<Rightarrow> 'p list \<Rightarrow> (int \<times> error option) \<times> 'p list" where
  "GetRowCount f tableName sent =
     (case payloadGen f of
        None \<Rightarrow> ((0, Some NilPayloadGen), sent)
      | Some pg \<Rightarrow>
          (let query = getRowCountQuery tableName
           in case Send (requester f) (GetComparisonPayload pg query 0) sent of
                (Inl err, sent1) \<Rightarrow> ((0, Some err), sent1)
              | (Inr fp, sent1) \<Rightarrow>
                  if \<not> IsTrue (calibration f) (Some fp) then ((0, None), sent1)
                  else (case checkThresholds (requester f) (calibration f)
                               (GetComparisonPayload pg query) thresholds sent1 of
                          (Some r, sent2) \<Rightarrow> (r, sent2)
                        | (None, sent2) \<Rightarrow>
                            searchLoop (requester f) (calibration f)
                              (GetComparisonPayload pg query) 1 9 sent2)))"

text \<open>
  \<open>Finder.findLength\<close> and \<open>Finder.findChar\<close> repeat the extractor's functions; the length
  search stops at 256.
\<close>

definition Finder_findLength ::
  "'p Finder \<Rightarrow> string \<Rightarrow> 'p list \<Rightarrow> (int \<times> error option) \<times> 'p list" where
  "Finder_findLength f query sent =
     (case payloadGen f of
        None \<Rightarrow> ((0, Some NilPayloadGen), sent)
      | Some pg \<Rightarrow>
          (case Send (requester f) (GetLengthPayload pg query 0) sent of
             (Inl err, sent1) \<Rightarrow> ((0, Some err), sent1)
           | (Inr fp, sent1) \<Rightarrow>
               if \<not> IsTrue (calibration f) (Some fp) then ((0, None), sent1)
               else (case searchLoop (requester f) (calibration f)
                            (GetLengthPayload pg query) 0 256 sent1 of
                       ((low, Some err), sent2) \<Rightarrow> ((0, Some err), sent2)
                     | ((low, None), sent2) \<Rightarrow> ((low, None), sent2))))"

definition Finder_findChar ::
  "'p Finder \<Rightarrow> string \<Rightarrow> int \<Rightarrow> 'p list \<Rightarrow> (char \<times> error option) \<times> 'p list" where
  "Finder_findChar f query pos sent =
     (case payloadGen f of
        None \<Rightarrow> ((char_of (0::int), Some NilPayloadGen), sent)
      | Some pg \<Rightarrow>
          (case searchLoop (requester f) (calibration f) (GetCharPayload pg query pos) 32 126 sent of
             ((low, Some err), sent') \<Rightarrow> ((char_of (0::int), Some err), sent')
           | ((low, None), sent') \<Rightarrow> ((char_of low, None), sent')))"

text \<open>
  The prediction block of \<open>Finder.extractString\<close>. \<open>nextChars\<close> is the key set of the map
  built from the candidates; every candidate has the discovered length, so position \<open>i\<close>
  is inside it. The inner loop ranges over that map, in an order Go does not fix: the
  parameter \<open>ord\<close> gives, for each position, the order in which the keys are visited.
\<close>

definition nextChars :: "string list \<Rightarrow> int \<Rightarrow> char list" where
  "nextChars candidates i = remdups (map (\<lambda>s. s ! nat (i - 1)) candidates)"

datatype prediction = Predicted char | PredictionFailed error | NoPrediction

fun predictLoop ::
  "'p Finder \<Rightarrow> 'p DatabasePayloads \<Rightarrow> string \<Rightarrow> int \<Rightarrow> char list \<Rightarrow> 'p list
   \<Rightarrow> prediction \<times> 'p list" where
  "predictLoop f pg query i [] sent = (NoPrediction, sent)"
| "predictLoop f pg query i (c # cs) sent =
     (case Send (requester f) (GetEqualityPayload pg query i (of_char c)) sent of
        (Inl err, sent') \<Rightarrow> (PredictionFailed err, sent')
      | (Inr fp, sent') \<Rightarrow>
          if IsTrue (calibration f) (Some fp) then (Predicted c, sent')
          else predictLoop f pg query i cs sent')"

text \<open>
  One round of the character loop: the character found together with the candidates kept
  for the next round, or the error that ends the extraction.
\<close>

definition Finder_nextChar ::
  "(int \<Rightarrow> char list \<Rightarrow> char list) \<Rightarrow> 'p Finder \<Rightarrow> 'p DatabasePayloads \<Rightarrow> string \<Rightarrow> int
   \<Rightarrow> string list \<Rightarrow> 'p list \<Rightarrow> (error + char \<times> string list) \<times> 'p list" where
  "Finder_nextChar ord f pg query i candidates sent =
     (case (if length candidates > 0
            then predictLoop f pg query i (ord i (nextChars candidates i)) sent
            else (NoPrediction, sent)) of
        (PredictionFailed err, sent1) \<Rightarrow> (Inl err, sent1)
      | (Predicted c, sent1) \<Rightarrow>
          (Inr (c, filter (\<lambda>s. s ! nat (i - 1) = c) candidates), sent1)
      | (NoPrediction, sent1) \<Rightarrow>
          (case Finder_findChar f query i sent1 of
             ((c, Some err), sent2) \<Rightarrow> (Inl err, sent2)
           | ((c, None), sent2) \<Rightarrow> (Inr (c, []), sent2)))"

function Finder_extractChars ::
  "(int \<Rightarrow> char list \<Rightarrow> char list) \<Rightarrow> 'p Finder \<Rightarrow> 'p DatabasePayloads \<Rightarrow> string \<Rightarrow> int
   \<Rightarrow> int \<Rightarrow> string list \<Rightarrow> string \<Rightarrow> 'p list \<Rightarrow> (string \<times> error option) \<times> 'p list" where
  "Finder_extractChars ord f pg query len i candidates result sent =
     (if i \<le> len then
        (case Finder_nextChar ord f pg query i candidates sent of
           (Inl err, sent') \<Rightarrow> ((result, Some err), sent')
         | (Inr (c, candidates'), sent') \<Rightarrow>
             Finder_extractChars ord f pg query len (i + 1) candidates' (result @ [c]) sent')
      else ((result, None), sent))"
  by pat_completeness auto
termination
  by (relation "measure (\<lambda>(ord, f, pg, query, len, i, candidates, result, sent). nat (len + 1 - i))")
     auto

declare Finder_extractChars.simps [simp del]

definition Finder_extractString ::
  "(int \<Rightarrow> char list \<Rightarrow> char list) \<Rightarrow> 'p Finder \<Rightarrow> string \<Rightarrow> 'p list \<Rightarrow> cache_file
   \<Rightarrow> (string \<times> error option) \<times> 'p list \<times> cache_file" where
  "Finder_extractString ord f query sent fl =
     (case payloadGen f of
        None \<Rightarrow> (('''', None), sent, fl)
      | Some pg \<Rightarrow>
          (case Finder_findLength f query sent of
             ((len, Some err), sent1) \<Rightarrow> (('''', Some err), sent1, fl)
           | ((len, None), sent1) \<Rightarrow>
               if len = 0 then (('''', None), sent1, fl)
               else
                 (let len = (if maxLen f > 0 \<and> len > maxLen f then maxLen f else len);
                      knownStrings = LoadKnownStrings (host f) fl;
                      candidates = filter (\<lambda>s. int (length s) = len) knownStrings
                  in case Finder_extractChars ord f pg query len 1 candidates [] sent1 of
                       ((result, Some err), sent2) \<Rightarrow> ((result, Some err), sent2, fl)
                     | ((result, None), sent2) \<Rightarrow>
                         ((result, None), sent2, SaveKnownString (host f) result fl))))"

section \<open>A mock responder\<close>

text \<open>
  A target that answers every probe truthfully about a fixed database: \<open>val\<close> gives the
  text a subquery evaluates to and \<open>cnt\<close> the number a counting query evaluates to. A
  true condition yields the page \<open>trueFp\<close>, a false one the page \<open>falseFp\<close>.
\<close>

datatype probe =
    LengthProbe string int
  | ComparisonProbe string int
  | EqualityProbe string int int
  | CharProbe string int int

definition probeGen :: "probe DatabasePayloads" where
  "probeGen = \<lparr>GetLengthPayload = LengthProbe, GetComparisonPayload = ComparisonProbe,
               GetEqualityPayload = EqualityProbe, GetCharPayload = CharProbe\<rparr>"

definition trueFp :: Fingerprint where
  "trueFp = \<lparr>StatusCode = 200, ContentLength = 5, WordCount = 1, LineCount = 1,
             BodyHash = ''1f3870be274f6c49b3e31a0c6728957f'', ContainsMatchString = False\<rparr>"

definition falseFp :: Fingerprint where
  "falseFp = \<lparr>StatusCode = 200, ContentLength = 16, WordCount = 3, LineCount = 1,
              BodyHash = ''72b302bf297a228a75730123efef7c41'', ContainsMatchString = False\<rparr>"

definition mockCalibration :: CalibrationResult where
  "mockCalibration = \<lparr>TrueFingerprint = Some trueFp, FalseFingerprint = Some falseFp,
       ErrorFingerprint = Some falseFp, CanDifferentiate = True, ErrorMatchesTrue = False\<rparr>"

definition asciiAt :: "string \<Rightarrow> int \<Rightarrow> int" where
  "asciiAt s pos = (if 1 \<le> pos \<and> pos \<le> int (length s) then of_char (s ! nat (pos - 1)) else 0)"

fun holds :: "(string \<Rightarrow> string) \<Rightarrow> (string \<Rightarrow> int) \<Rightarrow> probe \<Rightarrow> bool" where
  "holds val cnt (LengthProbe q n) = (int (length (val q)) > n)"
| "holds val cnt (ComparisonProbe q n) = (cnt q > n)"
| "holds val cnt (EqualityProbe q pos c) = (asciiAt (val q) pos = c)"
| "holds val cnt (CharProbe q pos n) = (asciiAt (val q) pos > n)"

fun isEqualityProbe :: "probe \<Rightarrow> bool" where
  "isEqualityProbe (EqualityProbe q pos c) = True"
| "isEqualityProbe p = False"

definition mockServer :: "(string \<Rightarrow> string) \<Rightarrow> (string \<Rightarrow> int) \<Rightarrow> probe server" where
  "mockServer val cnt sent p = Inr (if holds val cnt p then trueFp else falseFp)"

definition mockExtractor :: "(string \<Rightarrow> string) \<Rightarrow> DatabaseType \<Rightarrow> int \<Rightarrow> probe Extractor" where
  "mockExtractor val db n =
     \<lparr>requester = mockServer val (\<lambda>q. 0), calibration = mockCalibration, dbType = db,
      payloadGen = Some probeGen, maxLen = n\<rparr>"

definition mockFinder ::
  "(string \<Rightarrow> string) \<Rightarrow> (string \<Rightarrow> int) \<Rightarrow> DatabaseType \<Rightarrow> int \<Rightarrow> probe Finder" where
  "mockFinder val cnt db n =
     \<lparr>requester = mockServer val cnt, calibration = mockCalibration, dbType = db,
      payloadGen = Some probeGen, maxLen = n, host = ''target.example''\<rparr>"

section \<open>Faithful oracles\<close>

text \<open>
  The oracle is the composition of \<open>Send\<close> and \<open>IsTrue\<close>. It answers a payload with \<open>b\<close>
  when, whatever was sent before, the request succeeds and the response compares equal to
  the calibrated true page exactly when \<open>b\<close> holds.
\<close>

definition answers :: "'p server \<Rightarrow> CalibrationResult \<Rightarrow> 'p \<Rightarrow> bool \<Rightarrow> bool" where
  "answers srv cal payload b =
     (\<forall>sent. \<exists>fp. srv sent payload = Inr fp \<and> IsTrue cal (Some fp) = b)"

text \<open>
  The oracle is faithful for a subquery whose value on the server is the text \<open>s\<close>: every
  length probe, and every character probe at a position inside \<open>s\<close>, is answered by the
  truth of its condition.
\<close>

definition faithfulText ::
  "'p server \<Rightarrow> CalibrationResult \<Rightarrow> 'p DatabasePayloads \<Rightarrow> string \<Rightarrow> string \<Rightarrow> bool" where
  "faithfulText srv cal pg query s =
     ((\<forall>n. answers srv cal (GetLengthPayload pg query n) (int (length s) > n)) \<and>
      (\<forall>pos n. 1 \<le> pos \<and> pos \<le> int (length s) \<longrightarrow>
         answers srv cal (GetCharPayload pg query pos n) (of_char (s ! nat (pos - 1)) > n)) \<and>
      (\<forall>pos c. 1 \<le> pos \<and> pos \<le> int (length s) \<longrightarrow>
         answers srv cal (GetEqualityPayload pg query pos c) (of_char (s ! nat (pos - 1)) = c)))"

text \<open>The oracle is faithful for a counting query whose value on the server is \<open>N\<close>.\<close>

definition faithfulCount ::
  "'p server \<Rightarrow> CalibrationResult \<Rightarrow> 'p DatabasePayloads \<Rightarrow> string \<Rightarrow> int \<Rightarrow> bool" where
  "faithfulCount srv cal pg query N =
     (\<forall>n. answers srv cal (GetComparisonPayload pg query n) (N > n))"

definition printable :: "string \<Rightarrow> bool" where
  "printable s = (\<forall>c \<in> set s. (32::int) \<le> of_char c \<and> of_char c \<le> (126::int))"

section \<open>Properties of fingerprint comparison\<close>

text \<open>
  C2, as the code has it. Agreement of the two matches-signal-string flags is necessary
  for equality but does not decide it: fingerprints whose flags disagree are never equal,
  whatever their other fields; fingerprints whose flags agree are equal exactly when their
  status codes agree and either the word counts agree or the content lengths differ by at
  most 5% of the left-hand content length.
\<close>

theorem Equals_flags_then_shape:
  "(ContainsMatchString a \<noteq> ContainsMatchString b \<longrightarrow> \<not> Equals (Some a) (Some b)) \<and>
   (ContainsMatchString a = ContainsMatchString b \<longrightarrow>
      Equals (Some a) (Some b) =
        (StatusCode a = StatusCode b \<and>
         (WordCount a = WordCount b \<or>
          \<bar>real_of_int (ContentLength a - ContentLength b)\<bar>
            \<le> real_of_int (ContentLength a) * 0.05)))"
  by (auto simp: Let_def abs_if)

theorem Equals_flags_then_shape_witness:
  "\<not> Equals
      (Some \<lparr>StatusCode = 200, ContentLength = 120, WordCount = 14, LineCount = 3,
             BodyHash = ''0cc1'', ContainsMatchString = True\<rparr>)
      (Some \<lparr>StatusCode = 200, ContentLength = 120, WordCount = 14, LineCount = 3,
             BodyHash = ''0cc1'', ContainsMatchString = False\<rparr>) \<and>
   Equals
      (Some \<lparr>StatusCode = 200, ContentLength = 120, WordCount = 14, LineCount = 3,
             BodyHash = ''0cc1'', ContainsMatchString = True\<rparr>)
      (Some \<lparr>StatusCode = 200, ContentLength = 124, WordCount = 15, LineCount = 3,
             BodyHash = ''77f0'', ContainsMatchString = True\<rparr>)"
  using Equals_flags_then_shape
    [of "\<lparr>StatusCode = 200, ContentLength = 120, WordCount = 14, LineCount = 3,
          BodyHash = ''0cc1'', ContainsMatchString = True\<rparr>"
        "\<lparr>StatusCode = 200, ContentLength = 120, WordCount = 14, LineCount = 3,
          BodyHash = ''0cc1'', ContainsMatchString = False\<rparr>"]
    Equals_flags_then_shape
    [of "\<lparr>StatusCode = 200, ContentLength = 120, WordCount = 14, LineCount = 3,
          BodyHash = ''0cc1'', ContainsMatchString = True\<rparr>"
        "\<lparr>StatusCode = 200, ContentLength = 124, WordCount = 15, LineCount = 3,
          BodyHash = ''77f0'', ContainsMatchString = True\<rparr>"]
  by simp

text \<open>
  C2 as stated fails: both responses contain the signal string, yet a 200 and a 500
  response are not equal.
\<close>

theorem Equals_flags_alone_counterexample:
  "ContainsMatchString \<lparr>StatusCode = 200, ContentLength = 120, WordCount = 14, LineCount = 3,
       BodyHash = ''0cc1'', ContainsMatchString = True\<rparr>
   = ContainsMatchString \<lparr>StatusCode = 500, ContentLength = 120, WordCount = 14, LineCount = 3,
       BodyHash = ''0cc1'', ContainsMatchString = True\<rparr> \<and>
   \<not> Equals
      (Some \<lparr>StatusCode = 200, ContentLength = 120, WordCount = 14, LineCount = 3,
             BodyHash = ''0cc1'', ContainsMatchString = True\<rparr>)
      (Some \<lparr>StatusCode = 500, ContentLength = 120, WordCount = 14, LineCount = 3,
             BodyHash = ''0cc1'', ContainsMatchString = True\<rparr>)"
  by simp

text \<open>
  C3, as the code has it. \<open>Equals\<close> is reflexive on every fingerprint, and
  \<open>a.Equals(b)\<close> carries over to \<open>b.Equals(a)\<close> whenever the word counts agree or the
  content length of \<open>a\<close> is at most that of \<open>b\<close> (the tolerance of the right-hand side is
  then at least as wide).
\<close>

theorem Equals_refl_and_directed_sym:
  "Equals (Some a) (Some a) \<and>
   (Equals (Some a) (Some b) \<and>
      (WordCount a = WordCount b \<or> ContentLength a \<le> ContentLength b)
    \<longrightarrow> Equals (Some b) (Some a))"
  by (auto simp: Let_def split: if_splits)

theorem Equals_refl_and_directed_sym_witness:
  "Equals
      (Some \<lparr>StatusCode = 200, ContentLength = 951, WordCount = 90, LineCount = 7,
             BodyHash = ''b1'', ContainsMatchString = False\<rparr>)
      (Some \<lparr>StatusCode = 200, ContentLength = 990, WordCount = 100, LineCount = 7,
             BodyHash = ''a0'', ContainsMatchString = False\<rparr>) \<and>
   Equals
      (Some \<lparr>StatusCode = 200, ContentLength = 990, WordCount = 100, LineCount = 7,
             BodyHash = ''a0'', ContainsMatchString = False\<rparr>)
      (Some \<lparr>StatusCode = 200, ContentLength = 951, WordCount = 90, LineCount = 7,
             BodyHash = ''b1'', ContainsMatchString = False\<rparr>)"
  using Equals_refl_and_directed_sym
    [of "\<lparr>StatusCode = 200, ContentLength = 951, WordCount = 90, LineCount = 7,
          BodyHash = ''b1'', ContainsMatchString = False\<rparr>"
        "\<lparr>StatusCode = 200, ContentLength = 990, WordCount = 100, LineCount = 7,
          BodyHash = ''a0'', ContainsMatchString = False\<rparr>"]
  by simp

text \<open>
  C3 as stated fails: symmetry breaks when the difference lies between 5% of the smaller
  and 5% of the larger content length (here 49 against 50 and 47.55).
\<close>

theorem Equals_symmetric_counterexample:
  "Equals
      (Some \<lparr>StatusCode = 200, ContentLength = 1000, WordCount = 100, LineCount = 7,
             BodyHash = ''a0'', ContainsMatchString = False\<rparr>)
      (Some \<lparr>StatusCode = 200, ContentLength = 951, WordCount = 90, LineCount = 7,
             BodyHash = ''b1'', ContainsMatchString = False\<rparr>) \<and>
   \<not> Equals
      (Some \<lparr>StatusCode = 200, ContentLength = 951, WordCount = 90, LineCount = 7,
             BodyHash = ''b1'', ContainsMatchString = False\<rparr>)
      (Some \<lparr>StatusCode = 200, ContentLength = 1000, WordCount = 100, LineCount = 7,
             BodyHash = ''a0'', ContainsMatchString = False\<rparr>)"
  by simp

text \<open>
  C9. Comparison is total on missing values: against a nil fingerprint, on either side,
  \<open>Equals\<close> and \<open>IsSimilar\<close> answer false and \<open>Diff\<close> answers \<open>nil fingerprint\<close>; so
  \<open>IsTrue\<close>, \<open>IsFalse\<close> and \<open>IsError\<close> answer false when the probed fingerprint is nil
  and when the calibrated one is.
\<close>

theorem nil_fingerprint_comparisons:
  "Equals f None = False \<and> Equals None f = False \<and>
   IsSimilar f None = False \<and> IsSimilar None f = False \<and>
   Diff f None = ''nil fingerprint'' \<and> Diff None f = ''nil fingerprint'' \<and>
   IsTrue r None = False \<and> IsFalse r None = False \<and> IsError r None = False \<and>
   IsTrue (r\<lparr>TrueFingerprint := None\<rparr>) f = False \<and>
   IsFalse (r\<lparr>FalseFingerprint := None\<rparr>) f = False \<and>
   IsError (r\<lparr>ErrorFingerprint := None\<rparr>) f = False \<and>
   GetMatchType r None = MatchUnknown"
  by (cases f; cases "TrueFingerprint r"; cases "FalseFingerprint r"; cases "ErrorFingerprint r")
     (simp_all add: IsTrue_def IsFalse_def IsError_def GetMatchType_def)

section \<open>Host normalisation\<close>

lemma LastIndex_notin: "c \<notin> set s \<Longrightarrow> LastIndex s [c] = -1"
  by (induction s) (auto simp: Let_def)

lemma LastIndex_last: "c \<notin> set b \<Longrightarrow> LastIndex (a @ c # b) [c] = int (length a)"
proof (induction a)
  case Nil
  then show ?case by (simp add: LastIndex_notin)
next
  case (Cons x a)
  then show ?case by (simp add: Let_def)
qed

lemma Index_char: "(Index s [c] \<ge> 0) = (c \<in> set s)"
  by (induction s) (auto simp: Let_def)

lemma Contains_char: "Contains s [c] = (c \<in> set s)"
  by (simp add: Contains_def Index_char)

lemma of_char_toLowerByte:
  "(of_char (toLowerByte c) :: nat) =
     (if 65 \<le> (of_char c :: nat) \<and> (of_char c :: nat) \<le> 90 then of_char c + 32 else of_char c)"
  by (simp add: toLowerByte_def)

lemma toLowerByte_fix:
  assumes "(of_char d :: nat) < 65 \<or> (90 < (of_char d :: nat) \<and> (of_char d :: nat) < 97) \<or> 122 < (of_char d :: nat)"
  shows "(toLowerByte c = d) = (c = d)"
proof -
  have "(toLowerByte c = d) = ((of_char (toLowerByte c) :: nat) = of_char d)"
    by (simp only: of_char_eq_iff)
  also have "\<dots> = ((of_char c :: nat) = of_char d)"
    using assms by (auto simp: of_char_toLowerByte)
  also have "\<dots> = (c = d)" by (simp only: of_char_eq_iff)
  finally show ?thesis .
qed

lemma toLowerByte_colon: "(toLowerByte c = CHR '':'') = (c = CHR '':'')"
  by (rule toLowerByte_fix) simp

lemma toLowerByte_bracket: "(toLowerByte c = CHR '']'') = (c = CHR '']'')"
  by (rule toLowerByte_fix) simp

lemma toLowerByte_idem: "toLowerByte (toLowerByte c) = toLowerByte c"
proof -
  have "(of_char (toLowerByte (toLowerByte c)) :: nat) = of_char (toLowerByte c)"
    by (simp add: of_char_toLowerByte)
  then show ?thesis by (simp only: of_char_eq_iff)
qed

lemma ToLower_idem: "ToLower (ToLower s) = ToLower s"
  by (simp add: ToLower_def toLowerByte_idem)

lemma colon_in_ToLower: "(CHR '':'' \<in> set (ToLower s)) = (CHR '':'' \<in> set s)"
proof (induction s)
  case Nil
  then show ?case by (simp add: ToLower_def)
next
  case (Cons x s)
  have "(CHR '':'' = toLowerByte x) = (CHR '':'' = x)"
    using toLowerByte_colon [of x] by auto
  with Cons show ?case by (simp add: ToLower_def)
qed

lemma bracket_in_ToLower: "(CHR '']'' \<in> set (ToLower s)) = (CHR '']'' \<in> set s)"
proof (induction s)
  case Nil
  then show ?case by (simp add: ToLower_def)
next
  case (Cons x s)
  have "(CHR '']'' = toLowerByte x) = (CHR '']'' = x)"
    using toLowerByte_bracket [of x] by auto
  with Cons show ?case by (simp add: ToLower_def)
qed

lemma ToLower_split: "ToLower (a @ CHR '':'' # b) = ToLower a @ CHR '':'' # ToLower b"
  by (simp add: ToLower_def toLowerByte_def)

lemma length_ToLower: "length (ToLower s) = length s"
  by (simp add: ToLower_def)

lemma normalizeHost_nocolon: "CHR '':'' \<notin> set h \<Longrightarrow> normalizeHost h = ToLower h"
  by (simp add: normalizeHost_def LastIndex_notin)

lemma normalizeHost_split:
  "CHR '':'' \<notin> set b \<Longrightarrow>
   normalizeHost (a @ CHR '':'' # b) =
     (if CHR '']'' \<in> set b then ToLower (a @ CHR '':'' # b) else ToLower a)"
  by (simp add: normalizeHost_def LastIndex_last Contains_char)

lemma colons_nocolon: "CHR '':'' \<notin> set h \<Longrightarrow> colonsOutsideBrackets h = 0"
proof -
  assume a: "CHR '':'' \<notin> set h"
  have "set (takeWhile (\<lambda>c. c \<noteq> CHR '']'') (rev h)) \<subseteq> set h"
    using set_takeWhileD by fastforce
  with a have "CHR '':'' \<notin> set (rev (takeWhile (\<lambda>c. c \<noteq> CHR '']'') (rev h)))" by auto
  then show ?thesis
    unfolding colonsOutsideBrackets_def by (auto simp: filter_empty_conv)
qed

lemma colons_bracket_after:
  assumes "CHR '']'' \<in> set b" "CHR '':'' \<notin> set b"
  shows "colonsOutsideBrackets (a @ CHR '':'' # b) = 0"
proof -
  have "takeWhile (\<lambda>c. c \<noteq> CHR '']'') (rev b @ CHR '':'' # rev a)
        = takeWhile (\<lambda>c. c \<noteq> CHR '']'') (rev b)"
    using assms(1) by (intro takeWhile_append1[of "CHR '']''"]) auto
  moreover have "set (takeWhile (\<lambda>c. c \<noteq> CHR '']'') (rev b)) \<subseteq> set b"
    using set_takeWhileD by fastforce
  ultimately show ?thesis
    using assms(2) unfolding colonsOutsideBrackets_def by (auto simp: filter_empty_conv)
qed

lemma colons_port:
  assumes "CHR '']'' \<notin> set b" "CHR '':'' \<notin> set b"
  shows "colonsOutsideBrackets (a @ CHR '':'' # b) = Suc (colonsOutsideBrackets a)"
proof -
  have "takeWhile (\<lambda>c. c \<noteq> CHR '']'') (rev b @ CHR '':'' # rev a)
        = rev b @ CHR '':'' # takeWhile (\<lambda>c. c \<noteq> CHR '']'') (rev a)"
    using assms(1) by (subst takeWhile_append2) auto
  moreover have "filter (\<lambda>c. c = CHR '':'') b = []"
    using assms(2) by (auto simp: filter_empty_conv)
  ultimately show ?thesis
    unfolding colonsOutsideBrackets_def by simp
qed

lemma normalizeHost_stable:
  "(normalizeHost (ToLower a) = ToLower a) = (colonsOutsideBrackets a = 0)"
proof (cases "CHR '':'' \<in> set a")
  case False
  then show ?thesis
    by (simp add: normalizeHost_nocolon colon_in_ToLower ToLower_idem colons_nocolon)
next
  case True
  then obtain a' b' where ab: "a = a' @ CHR '':'' # b'" "CHR '':'' \<notin> set b'"
    using split_list_last by fastforce
  show ?thesis
  proof (cases "CHR '']'' \<in> set b'")
    case True
    have "normalizeHost (ToLower a' @ CHR '':'' # ToLower b')
          = ToLower (ToLower a' @ CHR '':'' # ToLower b')"
      using True ab(2) by (simp add: normalizeHost_split colon_in_ToLower bracket_in_ToLower)
    then have "normalizeHost (ToLower a) = ToLower a"
      using ab(1) by (simp add: ToLower_idem flip: ToLower_split)
    then show ?thesis using ab True by (simp add: colons_bracket_after)
  next
    case False
    have "length (ToLower (ToLower a')) \<noteq> length (ToLower a)"
      using ab by (simp add: length_ToLower)
    then have neq: "ToLower (ToLower a') \<noteq> ToLower a" by metis
    have "normalizeHost (ToLower a' @ CHR '':'' # ToLower b') = ToLower (ToLower a')"
      using False ab(2) by (simp add: normalizeHost_split colon_in_ToLower bracket_in_ToLower)
    then have "normalizeHost (ToLower a) = ToLower (ToLower a')"
      using ab(1) by (simp add: ToLower_split)
    then show ?thesis using ab False neq by (simp add: colons_port)
  qed
qed

text \<open>
  C8, as the code has it. Normalising a host twice gives the same key as normalising it
  once exactly when at most one colon of the host lies outside brackets (no \<open>]\<close> follows
  it): a name, \<open>name:port\<close>, \<open>[v6]\<close> and \<open>[v6]:port\<close> are all of that form.
\<close>

theorem normalizeHost_idempotent_iff:
  "(normalizeHost (normalizeHost h) = normalizeHost h) = (colonsOutsideBrackets h \<le> 1)"
proof (cases "CHR '':'' \<in> set h")
  case False
  then show ?thesis
    by (simp add: normalizeHost_nocolon colon_in_ToLower ToLower_idem colons_nocolon)
next
  case True
  then obtain a b where ab: "h = a @ CHR '':'' # b" "CHR '':'' \<notin> set b"
    using split_list_last by fastforce
  show ?thesis
  proof (cases "CHR '']'' \<in> set b")
    case True
    have "normalizeHost (ToLower a @ CHR '':'' # ToLower b)
          = ToLower (ToLower a @ CHR '':'' # ToLower b)"
      using True ab(2) by (simp add: normalizeHost_split colon_in_ToLower bracket_in_ToLower)
    then have "normalizeHost (ToLower h) = ToLower h"
      using ab(1) by (simp add: ToLower_idem flip: ToLower_split)
    moreover have "normalizeHost h = ToLower h"
      using True ab by (simp add: normalizeHost_split)
    ultimately show ?thesis using ab True by (simp add: colons_bracket_after)
  next
    case False
    then show ?thesis using ab
      by (simp add: normalizeHost_split normalizeHost_stable colons_port)
  qed
qed

theorem normalizeHost_idempotent_witness:
  "colonsOutsideBrackets ''[::1]:8080'' \<le> 1 \<and>
   normalizeHost (normalizeHost ''[::1]:8080'') = normalizeHost ''[::1]:8080''"
  using normalizeHost_idempotent_iff [of "''[::1]:8080''"]
  by (simp add: colonsOutsideBrackets_def)

text \<open>
  C8 as stated fails on an IPv6 literal written without brackets: only the last colon
  group is cut off by each pass.
\<close>

theorem normalizeHost_idempotent_counterexample:
  "normalizeHost (normalizeHost ''::1'') \<noteq> normalizeHost ''::1''"
  by (simp add: normalizeHost_def Contains_def ToLower_def toLowerByte_def)

section \<open>Binary search under a faithful oracle\<close>

lemma searchLoop_finds:
  assumes "\<forall>n. answers srv cal (mk n) (L > n)"
    and "low \<le> L" and "L \<le> high"
  shows "fst (searchLoop srv cal mk low high sent) = (L, None)"
  using assms
proof (induction srv cal mk low high sent rule: searchLoop.induct)
  case (1 srv cal mk low high sent)
  show ?case
  proof (cases "low < high")
    case False
    with 1 show ?thesis by (subst searchLoop.simps) simp
  next
    case True
    define mid where "mid = (low + high + 1) div 2"
    obtain fp where fp: "srv sent (mk (mid - 1)) = Inr fp" "IsTrue cal (Some fp) = (L > mid - 1)"
      using 1(3) unfolding answers_def by meson
    have send: "(Inr fp, sent @ [mk (mid - 1)]) = Send srv (mk (mid - 1)) sent"
      using fp(1) by (simp add: Send_def)
    show ?thesis
    proof (cases "L > mid - 1")
      case A: True
      have "fst (searchLoop srv cal mk mid high (sent @ [mk (mid - 1)])) = (L, None)"
        using A fp(2) 1(3,5)
        by (intro 1(1)[OF True mid_def refl send refl]) auto
      then show ?thesis using True fp A
        by (subst searchLoop.simps) (simp add: Send_def Let_def mid_def[symmetric])
    next
      case B: False
      have "fst (searchLoop srv cal mk low (mid - 1) (sent @ [mk (mid - 1)])) = (L, None)"
        using B fp(2) 1(3,4)
        by (intro 1(2)[OF True mid_def refl send refl]) auto
      then show ?thesis using True fp B
        by (subst searchLoop.simps) (simp add: Send_def Let_def mid_def[symmetric])
    qed
  qed
qed

lemma Send_answers:
  assumes "answers srv cal p b"
  obtains fp where "Send srv p sent = (Inr fp, sent @ [p])" "IsTrue cal (Some fp) = b"
proof -
  from assms obtain fp where "srv sent p = Inr fp" "IsTrue cal (Some fp) = b"
    unfolding answers_def by meson
  then show thesis using that [of fp] by (simp add: Send_def)
qed

lemma searchLoop_sent:
  "\<exists>ks. snd (searchLoop srv cal mk low high sent) = sent @ map mk ks \<and>
        (\<forall>k \<in> set ks. low \<le> k \<and> k < high)"
proof (induction srv cal mk low high sent rule: searchLoop.induct)
  case (1 srv cal mk low high sent)
  show ?case
  proof (cases "low < high")
    case False
    then have "snd (searchLoop srv cal mk low high sent) = sent @ map mk []"
      by (subst searchLoop.simps) simp
    then show ?thesis by (intro exI[of _ "[]"]) simp
  next
    case True
    define mid where "mid = (low + high + 1) div 2"
    have midb: "low \<le> mid - 1" "mid - 1 < high" using True by (auto simp: mid_def)
    let ?sent' = "sent @ [mk (mid - 1)]"
    show ?thesis
    proof (cases "srv sent (mk (mid - 1))")
      case (Inl err)
      then have "snd (searchLoop srv cal mk low high sent) = sent @ map mk [mid - 1]"
        using True by (subst searchLoop.simps) (simp add: Send_def Let_def mid_def[symmetric])
      then show ?thesis using midb by (intro exI[of _ "[mid - 1]"]) simp
    next
      case (Inr fp)
      then have send: "(Inr fp, ?sent') = Send srv (mk (mid - 1)) sent"
        by (simp add: Send_def)
      show ?thesis
      proof (cases "IsTrue cal (Some fp)")
        case A: True
        from 1(1)[OF True mid_def refl send refl A]
        obtain ks where ks: "snd (searchLoop srv cal mk mid high ?sent') = ?sent' @ map mk ks"
          "\<forall>k \<in> set ks. mid \<le> k \<and> k < high" by blast
        have "snd (searchLoop srv cal mk low high sent) = sent @ map mk ((mid - 1) # ks)"
          using True Inr A ks(1)
          by (subst searchLoop.simps) (simp add: Send_def Let_def mid_def[symmetric])
        then show ?thesis using ks(2) midb by (intro exI[of _ "(mid - 1) # ks"]) auto
      next
        case B: False
        from 1(2)[OF True mid_def refl send refl B]
        obtain ks where ks: "snd (searchLoop srv cal mk low (mid - 1) ?sent') = ?sent' @ map mk ks"
          "\<forall>k \<in> set ks. low \<le> k \<and> k < mid - 1" by blast
        have "snd (searchLoop srv cal mk low high sent) = sent @ map mk ((mid - 1) # ks)"
          using True Inr B ks(1)
          by (subst searchLoop.simps) (simp add: Send_def Let_def mid_def[symmetric])
        then show ?thesis using ks(2) midb by (intro exI[of _ "(mid - 1) # ks"]) auto
      qed
    qed
  qed
qed

lemma checkThresholds_faithful:
  assumes "\<forall>n. answers srv cal (mk n) (N > n)"
  shows "fst (checkThresholds srv cal mk ts sent) =
     (case find (\<lambda>th. N > th - 1) ts of
        None \<Rightarrow> None
      | Some th \<Rightarrow> Some (if th = 1000000 then -1 else th, None))"
proof (induction ts arbitrary: sent)
  case Nil
  then show ?case by simp
next
  case (Cons th ts)
  obtain fp where fp: "Send srv (mk (th - 1)) sent = (Inr fp, sent @ [mk (th - 1)])"
      "IsTrue cal (Some fp) = (N > th - 1)"
    using assms Send_answers by metis
  show ?case using fp Cons by simp
qed

lemma GetRowCount_value:
  assumes pg: "payloadGen f = Some pg"
    and fc: "faithfulCount (requester f) (calibration f) pg (getRowCountQuery t) N"
  shows "fst (GetRowCount f t sent) =
     (if N \<le> 0 then (0, None)
      else case find (\<lambda>th. N > th - 1) thresholds of
             Some th \<Rightarrow> (if th = 1000000 then -1 else th, None)
           | None \<Rightarrow> (N, None))"
proof -
  let ?mk = "GetComparisonPayload pg (getRowCountQuery t)"
  have ans: "\<forall>n. answers (requester f) (calibration f) (?mk n) (N > n)"
    using fc by (simp add: faithfulCount_def)
  obtain fp where fp: "Send (requester f) (?mk 0) sent = (Inr fp, sent @ [?mk 0])"
      "IsTrue (calibration f) (Some fp) = (N > 0)"
    using ans Send_answers by metis
  show ?thesis
  proof (cases "N \<le> 0")
    case True
    then show ?thesis using pg fp by (simp add: GetRowCount_def)
  next
    case False
    obtain r sent2 where ct:
      "checkThresholds (requester f) (calibration f) ?mk thresholds (sent @ [?mk 0]) = (r, sent2)"
      by (cases "checkThresholds (requester f) (calibration f) ?mk thresholds (sent @ [?mk 0])")
    have r: "r = (case find (\<lambda>th. N > th - 1) thresholds of
        None \<Rightarrow> None
      | Some th \<Rightarrow> Some (if th = 1000000 then -1 else th, None))"
      using checkThresholds_faithful[OF ans, of thresholds "sent @ [?mk 0]"] ct by simp
    show ?thesis
    proof (cases "find (\<lambda>th. N > th - 1) thresholds")
      case None
      then have "\<not> N > 9" by (simp add: thresholds_def split: if_splits)
      then have "fst (searchLoop (requester f) (calibration f) ?mk 1 9 sent2) = (N, None)"
        using False by (intro searchLoop_finds[OF ans]) auto
      then show ?thesis using pg fp False ct r None by (simp add: GetRowCount_def)
    next
      case (Some th)
      then show ?thesis using pg fp False ct r by (simp add: GetRowCount_def)
    qed
  qed
qed

lemma mock_answers: "answers (mockServer val cnt) mockCalibration p (holds val cnt p)"
  by (simp add: answers_def mockServer_def IsTrue_def mockCalibration_def trueFp_def falseFp_def)

lemma mock_faithfulCount:
  "faithfulCount (mockServer val cnt) mockCalibration probeGen q (cnt q)"
  using mock_answers [of val cnt "ComparisonProbe q n" for n]
  by (simp add: faithfulCount_def probeGen_def)

lemma mock_faithfulText:
  "faithfulText (mockServer val cnt) mockCalibration probeGen q (val q)"
  unfolding faithfulText_def
proof (intro conjI allI impI)
  fix n
  show "answers (mockServer val cnt) mockCalibration (GetLengthPayload probeGen q n)
          (n < int (length (val q)))"
    using mock_answers [of val cnt "LengthProbe q n"] by (simp add: probeGen_def)
next
  fix pos n
  assume "1 \<le> pos \<and> pos \<le> int (length (val q))"
  then show "answers (mockServer val cnt) mockCalibration (GetCharPayload probeGen q pos n)
          (n < of_char (val q ! nat (pos - 1)))"
    using mock_answers [of val cnt "CharProbe q pos n"] by (simp add: probeGen_def asciiAt_def)
next
  fix pos c
  assume "1 \<le> pos \<and> pos \<le> int (length (val q))"
  then show "answers (mockServer val cnt) mockCalibration (GetEqualityPayload probeGen q pos c)
          (of_char (val q ! nat (pos - 1)) = c)"
    using mock_answers [of val cnt "EqualityProbe q pos c"] by (simp add: probeGen_def asciiAt_def)
qed

section \<open>The row-count ladder\<close>

text \<open>
  C7. Let the oracle answer every probe \<open>COUNT(*) > n\<close> by the truth of \<open>N > n\<close>. Then
  \<open>GetRowCount\<close> returns without error; it returns \<open>-1\<close> exactly when the first ladder
  probe, \<open>COUNT(*) > 999999\<close>, is answered true; when the probe \<open>COUNT(*) > 0\<close> is answered
  true and every ladder probe false, it returns \<open>N\<close>, the exact count; and otherwise,
  below the first rung, it returns the first threshold of the descending ladder whose
  probe is answered true.
\<close>

theorem GetRowCount_ladder:
  assumes "payloadGen f = Some pg"
    and "faithfulCount (requester f) (calibration f) pg (getRowCountQuery t) N"
  shows "snd (fst (GetRowCount f t sent)) = None \<and>
    ((fst (fst (GetRowCount f t sent)) = -1) = (N > 999999)) \<and>
    (N > 0 \<and> (\<forall>th \<in> set thresholds. \<not> N > th - 1) \<longrightarrow> fst (fst (GetRowCount f t sent)) = N) \<and>
    (\<forall>th. N > 0 \<and> N \<le> 999999 \<and> find (\<lambda>th. N > th - 1) thresholds = Some th
        \<longrightarrow> fst (fst (GetRowCount f t sent)) = th)"
proof -
  note v = GetRowCount_value[OF assms, of sent]
  have 1: "snd (fst (GetRowCount f t sent)) = None"
    unfolding v by (simp add: thresholds_def)
  have 2: "(fst (fst (GetRowCount f t sent)) = -1) = (N > 999999)"
    unfolding v by (simp add: thresholds_def)
  have 3: "N > 0 \<and> (\<forall>th \<in> set thresholds. \<not> N > th - 1) \<longrightarrow> fst (fst (GetRowCount f t sent)) = N"
    unfolding v by (simp add: thresholds_def)
  have 4: "\<forall>th. N > 0 \<and> N \<le> 999999 \<and> find (\<lambda>th. N > th - 1) thresholds = Some th
        \<longrightarrow> fst (fst (GetRowCount f t sent)) = th"
    unfolding v by (simp add: thresholds_def)
  from 1 2 3 4 show ?thesis by blast
qed



theorem GetRowCount_ladder_witness:
  "payloadGen (mockFinder (\<lambda>q. []) (\<lambda>q. 247) MySQL 70) = Some probeGen \<and>
   faithfulCount (requester (mockFinder (\<lambda>q. []) (\<lambda>q. 247) MySQL 70))
     (calibration (mockFinder (\<lambda>q. []) (\<lambda>q. 247) MySQL 70)) probeGen
     (getRowCountQuery ''users'') 247 \<and>
   fst (GetRowCount (mockFinder (\<lambda>q. []) (\<lambda>q. 247) MySQL 70) ''users'' []) = (100, None) \<and>
   faithfulCount (requester (mockFinder (\<lambda>q. []) (\<lambda>q. 7) MySQL 70))
     (calibration (mockFinder (\<lambda>q. []) (\<lambda>q. 7) MySQL 70)) probeGen
     (getRowCountQuery ''users'') 7 \<and>
   fst (GetRowCount (mockFinder (\<lambda>q. []) (\<lambda>q. 7) MySQL 70) ''users'' []) = (7, None)"
proof -
  have a: "payloadGen (mockFinder (\<lambda>q. []) (\<lambda>q. n) MySQL 70) = Some probeGen" for n
    by (simp add: mockFinder_def)
  have b: "faithfulCount (requester (mockFinder (\<lambda>q. []) (\<lambda>q. n) MySQL 70))
     (calibration (mockFinder (\<lambda>q. []) (\<lambda>q. n) MySQL 70)) probeGen
     (getRowCountQuery ''users'') n" for n
    using mock_faithfulCount [of "\<lambda>q. []" "\<lambda>q. n" "getRowCountQuery ''users''"]
    by (simp add: mockFinder_def)
  show ?thesis
    using GetRowCount_ladder [OF a b, of 247 "[]"] GetRowCount_ladder [OF a b, of 7 "[]"] a b
    by (simp add: thresholds_def prod_eq_iff)
qed

section \<open>String extraction under a faithful oracle\<close>

lemma findLength_faithful:
  assumes pg: "payloadGen e = Some pg"
    and ft: "faithfulText (requester e) (calibration e) pg q s"
    and len: "length s \<le> 1024"
  shows "fst (Extractor_findLength e q sent) = (int (length s), None)"
    and "s = [] \<Longrightarrow> snd (Extractor_findLength e q sent) = sent @ [GetLengthPayload pg q 0]"
proof -
  let ?mk = "GetLengthPayload pg q"
  have ans: "\<forall>n. answers (requester e) (calibration e) (?mk n) (int (length s) > n)"
    using ft by (simp add: faithfulText_def)
  obtain fp where fp: "Send (requester e) (?mk 0) sent = (Inr fp, sent @ [?mk 0])"
      "IsTrue (calibration e) (Some fp) = (int (length s) > 0)"
    using ans Send_answers by metis
  show "s = [] \<Longrightarrow> snd (Extractor_findLength e q sent) = sent @ [?mk 0]"
    using pg fp by (simp add: Extractor_findLength_def)
  show "fst (Extractor_findLength e q sent) = (int (length s), None)"
  proof (cases "s = []")
    case True
    then show ?thesis using pg fp by (simp add: Extractor_findLength_def)
  next
    case False
    have "fst (searchLoop (requester e) (calibration e) ?mk 0 1024 (sent @ [?mk 0]))
          = (int (length s), None)"
      using len by (intro searchLoop_finds[OF ans]) auto
    then show ?thesis using pg fp False
      by (auto simp: Extractor_findLength_def split: prod.splits option.splits)
  qed
qed

lemma findChar_faithful:
  assumes pg: "payloadGen e = Some pg"
    and ft: "faithfulText (requester e) (calibration e) pg q s"
    and pr: "printable s"
    and pos: "1 \<le> pos" "pos \<le> int (length s)"
  shows "fst (Extractor_findChar e q pos sent) = (s ! nat (pos - 1), None)"
proof -
  let ?c = "s ! nat (pos - 1)"
  let ?mk = "GetCharPayload pg q pos"
  have ans: "\<forall>n. answers (requester e) (calibration e) (?mk n) (of_char ?c > n)"
    using ft pos by (simp add: faithfulText_def)
  have "?c \<in> set s" using pos by (intro nth_mem) auto
  then have rng: "(32::int) \<le> of_char ?c" "of_char ?c \<le> (126::int)"
    using pr by (auto simp: printable_def)
  have "fst (searchLoop (requester e) (calibration e) ?mk 32 126 sent) = (of_char ?c, None)"
    using rng by (intro searchLoop_finds[OF ans]) auto
  then show ?thesis using pg
    by (auto simp: Extractor_findChar_def split: prod.splits option.splits)
qed

lemma tryUniqueChars_faithful:
  assumes pg: "payloadGen e = Some pg"
    and ft: "faithfulText (requester e) (calibration e) pg q s"
    and pr: "printable s"
    and pos: "1 \<le> pos" "pos \<le> int (length s)"
  shows "fst (tryUniqueChars e pg q pos cs sent) = (s ! nat (pos - 1), None)"
proof (induction cs arbitrary: sent)
  case Nil
  then show ?case using findChar_faithful[OF assms] by simp
next
  case (Cons c cs)
  let ?p = "GetEqualityPayload pg q pos (of_char c)"
  have "answers (requester e) (calibration e) ?p ((of_char (s ! nat (pos - 1)) :: int) = of_char c)"
    using ft pos unfolding faithfulText_def by blast
  then have "answers (requester e) (calibration e) ?p (s ! nat (pos - 1) = c)"
    by (simp only: of_char_eq_iff)
  then obtain fp where fp: "Send (requester e) ?p sent = (Inr fp, sent @ [?p])"
      "IsTrue (calibration e) (Some fp) = (s ! nat (pos - 1) = c)"
    using Send_answers by metis
  show ?case using fp Cons by auto
qed

lemma findCharWithPrefixes_faithful:
  assumes pg: "payloadGen e = Some pg"
    and ft: "faithfulText (requester e) (calibration e) pg q s"
    and pr: "printable s"
    and pos: "1 \<le> pos" "pos \<le> int (length s)"
  shows "fst (findCharWithPrefixes e q pos cur sent) = (s ! nat (pos - 1), None)"
  using tryUniqueChars_faithful[OF assms] findChar_faithful[OF assms] pg
  by (simp add: findCharWithPrefixes_def Let_def)

lemma extractChars_faithful:
  assumes pg: "payloadGen e = Some pg"
    and ft: "faithfulText (requester e) (calibration e) pg q s"
    and pr: "printable s"
    and len: "len \<le> int (length s)"
  shows "1 \<le> i \<Longrightarrow> i \<le> len + 1 \<Longrightarrow> result = take (nat (i - 1)) s
     \<Longrightarrow> fst (extractChars e q len i result sent) = (take (nat len) s, None)"
proof (induction "nat (len + 1 - i)" arbitrary: i result sent)
  case 0
  then have "i = len + 1" by simp
  then show ?case using 0 by (subst extractChars.simps) simp
next
  case (Suc k)
  then have i: "i \<le> len" "1 \<le> i" "i \<le> int (length s)" using len by auto
  obtain sent' where fc: "findCharWithPrefixes e q i result sent = ((s ! nat (i - 1), None), sent')"
    using findCharWithPrefixes_faithful[OF pg ft pr i(2,3), of result sent]
    by (cases "findCharWithPrefixes e q i result sent") auto
  have "take (nat (i - 1)) s @ [s ! nat (i - 1)] = take (nat (i + 1 - 1)) s"
  proof -
    define m where "m = nat (i - 1)"
    have m: "nat (i + 1 - 1) = Suc m" "m < length s" using i by (auto simp: m_def)
    show ?thesis unfolding m(1) m_def[symmetric] using m(2)
      by (simp add: take_Suc_conv_app_nth)
  qed
  then have "fst (extractChars e q len (i + 1) (result @ [s ! nat (i - 1)]) sent')
        = (take (nat len) s, None)"
    using Suc i by (intro Suc(1)) auto
  then show ?case using i fc by (subst extractChars.simps) simp
qed

text \<open>
  C1. Let the value of the subquery be a printable-ASCII text \<open>s\<close> of at most 1024
  bytes, and let the oracle answer every probe by the truth of its condition on \<open>s\<close>.
  Then \<open>extractString\<close> returns, without error, the first \<open>min (length s) maxLen\<close>
  bytes of \<open>s\<close>, and all of \<open>s\<close> when \<open>maxLen\<close> is not positive. When \<open>s\<close> is empty the
  only probe sent is the length probe \<open>length > 0\<close>.
\<close>

theorem extractString_faithful:
  assumes pg: "payloadGen e = Some pg"
    and ft: "faithfulText (requester e) (calibration e) pg q s"
    and pr: "printable s"
    and len: "length s \<le> 1024"
  shows "fst (Extractor_extractString e q sent) =
           (take (if maxLen e > 0 then nat (min (int (length s)) (maxLen e)) else length s) s, None) \<and>
         (s = [] \<longrightarrow> snd (Extractor_extractString e q sent) = sent @ [GetLengthPayload pg q 0])"
proof -
  obtain sent1 where fl: "Extractor_findLength e q sent = ((int (length s), None), sent1)"
    using findLength_faithful(1)[OF pg ft len, of sent]
    by (cases "Extractor_findLength e q sent") auto
  have empty: "s = [] \<longrightarrow> snd (Extractor_extractString e q sent) = sent @ [GetLengthPayload pg q 0]"
    using findLength_faithful(2)[OF pg ft len, of sent] fl
    by (auto simp: Extractor_extractString_def)
  have val: "fst (Extractor_extractString e q sent) =
           (take (if maxLen e > 0 then nat (min (int (length s)) (maxLen e)) else length s) s, None)"
  proof (cases "s = []")
    case True
    then show ?thesis using fl by (simp add: Extractor_extractString_def)
  next
    case False
    define len' where "len' = (if maxLen e > 0 \<and> int (length s) > maxLen e then maxLen e else int (length s))"
    have l: "len' \<le> int (length s)" "1 \<le> len' + 1" by (auto simp: len'_def)
    have "fst (extractChars e q len' 1 [] sent1) = (take (nat len') s, None)"
      using l by (intro extractChars_faithful[OF pg ft pr]) auto
    moreover have "take (nat len') s
       = take (if maxLen e > 0 then nat (min (int (length s)) (maxLen e)) else length s) s"
      by (auto simp: len'_def min_def)
    ultimately show ?thesis using fl False
      by (simp add: Extractor_extractString_def Let_def len'_def)
  qed
  from val empty show ?thesis by blast
qed

theorem extractString_faithful_witness:
  "payloadGen (mockExtractor (\<lambda>q. ''8.0.36'') MySQL 70) = Some probeGen \<and>
   faithfulText (requester (mockExtractor (\<lambda>q. ''8.0.36'') MySQL 70))
     (calibration (mockExtractor (\<lambda>q. ''8.0.36'') MySQL 70)) probeGen
     ''SELECT version()'' ''8.0.36'' \<and>
   printable ''8.0.36'' \<and>
   fst (Extractor_extractString (mockExtractor (\<lambda>q. ''8.0.36'') MySQL 70)
          ''SELECT version()'' []) = (''8.0.36'', None) \<and>
   fst (Extractor_extractString (mockExtractor (\<lambda>q. ''8.0.36'') MySQL 3)
          ''SELECT version()'' []) = (''8.0'', None) \<and>
   Extractor_extractString (mockExtractor (\<lambda>q. []) MySQL 70) ''SELECT version()'' []
     = (([], None), [LengthProbe ''SELECT version()'' 0])"
proof -
  have a: "payloadGen (mockExtractor v MySQL n) = Some probeGen" for v n
    by (simp add: mockExtractor_def)
  have b: "faithfulText (requester (mockExtractor v MySQL n))
     (calibration (mockExtractor v MySQL n)) probeGen q (v q)" for v n q
    using mock_faithfulText [of v "\<lambda>q. 0" q] by (simp add: mockExtractor_def)
  have p: "printable ''8.0.36''" "printable []"
    by (simp_all add: printable_def)
  have m: "maxLen (mockExtractor v MySQL n) = n" for v n
    by (simp add: mockExtractor_def)
  show ?thesis
    using
      extractString_faithful [of "mockExtractor (\<lambda>q. ''8.0.36'') MySQL 70" probeGen
        "''SELECT version()''" "''8.0.36''" "[]"]
      extractString_faithful [of "mockExtractor (\<lambda>q. ''8.0.36'') MySQL 3" probeGen
        "''SELECT version()''" "''8.0.36''" "[]"]
      extractString_faithful [of "mockExtractor (\<lambda>q. []) MySQL 70" probeGen
        "''SELECT version()''" "[]" "[]"]
      a [of "\<lambda>q. ''8.0.36''" 70] a [of "\<lambda>q. ''8.0.36''" 3] a [of "\<lambda>q. []" 70]
      b [of "\<lambda>q. ''8.0.36''" 70 "''SELECT version()''"]
      b [of "\<lambda>q. ''8.0.36''" 3 "''SELECT version()''"]
      b [of "\<lambda>q. []" 70 "''SELECT version()''"] p
    by (simp add: m prod_eq_iff probeGen_def)
qed

end
